theory Spec2Isabelle
  imports Main "HOL-Library.Word"
begin

section \<open>Data consumed by the tips handlers of the web API\<close>

text \<open>
  The handlers \<open>getTipInfo\<close> and \<open>getTransactionsToApprove\<close> of
  \<open>plugins/webapi/tips.go\<close> read the node through package-level functions and
  answer with one call of \<open>c.JSON(status, body)\<close> followed by \<open>return\<close>.
  The model makes everything they read a field of one record, and their answer a value.

  A \<open>hornet.Hash\<close> is a byte slice (the source converts it to and from \<open>string\<close> to use
  it as a map key); trytes are a Go string. Both are \<open>string\<close> here, since a HOL
  \<open>char\<close> is one byte.
\<close>

type_synonym hash = string
type_synonym trytes = string

text \<open>
  Go errors are compared by identity (\<open>err == tangle.ErrNodeNotSynced\<close>) and printed
  through \<open>Error()\<close>. The three sentinels the handlers name are constructors of their
  own; any other error value is \<open>OtherError\<close> with a tag that tells two of them apart.
  Their texts are declared in other packages, so \<open>Error()\<close> is a field of the node
  record below.
\<close>

datatype go_error = ErrInternalError | ErrNodeNotSynced | ErrNoTipsAvailable | OtherError string

text \<open>The status codes of \<open>net/http\<close> the handlers use.\<close>

definition StatusOK :: nat where "StatusOK = 200"
definition StatusBadRequest :: nat where "StatusBadRequest = 400"
definition StatusInternalServerError :: nat where "StatusInternalServerError = 500"
definition StatusServiceUnavailable :: nat where "StatusServiceUnavailable = 503"

text \<open>The request and response structs, with the fields the handlers touch.\<close>

record GetTipInfo =
  TailTransaction :: trytes

record GetTransactionsToApprove =
  Reference :: trytes

record GetTipInfoReturn =
  Confirmed :: bool
  Conflicting :: bool
  ShouldPromote :: bool
  ShouldReattach :: bool

record GetTransactionsToApproveReturn =
  TrunkTransaction :: trytes
  BranchTransaction :: trytes

datatype payload =
    ErrorReturn string
  | TipInfo GetTipInfoReturn
  | TransactionsToApprove GetTransactionsToApproveReturn

text \<open>
  What a handler does: it writes one JSON answer with a status, or it panics (an index
  out of range on \<open>tips\<close>).
\<close>

datatype reply = JSON nat payload | Panic

text \<open>
  The first argument \<open>i\<close> of a handler is an untyped value that
  \<open>mapstructure.Decode(i, query)\<close> turns into the query struct or an error. The model
  takes the outcome of that call as the handler's input.
\<close>

datatype 'q decoded = DecodeError go_error | Decoded 'q

text \<open>The transaction metadata and bundle accessors the handler calls.\<close>

record TransactionMetadata =
  GetTxHash :: hash
  IsTail :: bool
  IsSolid :: bool
  IsConflicting :: bool
  IsConfirmed :: bool

record Bundle =
  GetTrunkHash :: hash
  GetBranchHash :: hash

datatype cfg_key =
    CfgTipSelBelowMaxDepth
  | CfgTipSelMaxDeltaTxYoungestRootSnapshotIndexToLSMI
  | CfgTipSelMaxDeltaTxApproveesOldestRootSnapshotIndexToLSMI

text \<open>
  Modelled from the spec: \<open>milestone.Index\<close> is declared in the package \<open>milestone\<close>; the
  spec calls a milestone index a monotonically increasing unsigned integer. The record of
  the node as the handlers see it takes the index type as a parameter, and the handlers use
  it at \<open>'w word\<close>, a word of any width \<open>'w\<close> (subtraction wraps, comparison is
  unsigned). The pair returned by \<open>GetTransactionRootSnapshotIndexes\<close> is
  (YTRSI, OTRSI), in that order.
\<close>

record 'index node =
  IsSkipped_urts :: bool
  IsNodeSyncedWithThreshold :: bool
  IsTransactionHash :: "trytes \<Rightarrow> bool"
  HashFromHashTrytes :: "trytes \<Rightarrow> hash"
  Trytes :: "hash \<Rightarrow> trytes"
  GetCachedTxMetadataOrNil :: "hash \<Rightarrow> TransactionMetadata option"
  GetCachedBundleOrNil :: "hash \<Rightarrow> Bundle option"
  GetSolidMilestoneIndex :: "'index"
  GetTransactionRootSnapshotIndexes :: "TransactionMetadata \<Rightarrow> 'index \<Rightarrow> 'index \<times> 'index"
  SolidEntryPointsContain :: "hash \<Rightarrow> bool"
  EntryPointIndex :: "'index"
  GetInt :: "cfg_key \<Rightarrow> int"
  SelectNonLazyTips :: "go_error + hash list"
  Error :: "go_error \<Rightarrow> string"

text \<open>
  \<open>milestone.Index(n)\<close> on a Go \<open>int\<close>: the conversion to the unsigned type keeps the
  low bits.
\<close>

definition Index :: "int \<Rightarrow> 'w::len word" where
  "Index n = word_of_int n"

text \<open>\<open>fmt.Sprintf("%v: %v", ErrInternalError, err)\<close>.\<close>

definition internal_error_text :: "'w::len word node \<Rightarrow> go_error \<Rightarrow> string" where
  "internal_error_text n err = Error n ErrInternalError @ '': '' @ Error n err"

section \<open>getTipInfo\<close>

text \<open>
  The approvees are the keys of a Go map built from the trunk and the branch hash of the
  bundle: one key when both are equal. Go does not fix the order in which \<open>range\<close>
  visits the keys of a map, so the order is an argument of the model: \<open>False\<close> visits
  the trunk first, \<open>True\<close> the branch.
\<close>

definition approveeHashes :: "Bundle \<Rightarrow> hash list" where
  "approveeHashes b =
     (if GetTrunkHash b = GetBranchHash b then [GetTrunkHash b]
      else [GetTrunkHash b, GetBranchHash b])"

definition range_keys :: "bool \<Rightarrow> hash list \<Rightarrow> hash list" where
  "range_keys flipped ks = (if flipped then rev ks else ks)"

text \<open>The four answers with status 200 that the classification can give.\<close>

definition tip_info :: "bool \<Rightarrow> bool \<Rightarrow> bool \<Rightarrow> bool \<Rightarrow> reply" where
  "tip_info cf cl pr re =
     JSON StatusOK
       (TipInfo \<lparr>Confirmed = cf, Conflicting = cl, ShouldPromote = pr, ShouldReattach = re\<rparr>)"

text \<open>
  The OTRSI the loop assigns to \<open>approveeORTSI\<close> for one approvee: the entry point index
  for a solid entry point, else the second component of the root snapshot indexes of its
  metadata; \<open>None\<close> when the approvee has no metadata, where the handler gives up.
\<close>

definition approveeORTSI :: "'w::len word node \<Rightarrow> 'w word \<Rightarrow> hash \<Rightarrow> 'w word option" where
  "approveeORTSI n lsmi approveeHash =
     (if SolidEntryPointsContain n approveeHash then Some (EntryPointIndex n)
      else (case GetCachedTxMetadataOrNil n approveeHash of
              None \<Rightarrow> None
            | Some cachedApproveeTxMeta \<Rightarrow>
                Some (snd (GetTransactionRootSnapshotIndexes n cachedApproveeTxMeta lsmi))))"

text \<open>The loop over the approvees, and the answer that follows the loop.\<close>

fun scan_approvees :: "'w::len word node \<Rightarrow> 'w word \<Rightarrow> hash list \<Rightarrow> reply" where
  "scan_approvees n lsmi [] = tip_info False False False False"
| "scan_approvees n lsmi (approveeHash # rest) =
     (case approveeORTSI n lsmi approveeHash of
        None \<Rightarrow>
          JSON StatusBadRequest
            (ErrorReturn (''approvee transaction not found: '' @ Trytes n approveeHash))
      | Some ortsi \<Rightarrow>
          (if lsmi - ortsi
                > Index (GetInt n CfgTipSelMaxDeltaTxApproveesOldestRootSnapshotIndexToLSMI)
           then tip_info False False True False
           else scan_approvees n lsmi rest))"

text \<open>The handler from the lookup of the bundle on, for a tip that passed both tests.\<close>

definition check_approvees :: "'w::len word node \<Rightarrow> TransactionMetadata \<Rightarrow> 'w word \<Rightarrow> bool \<Rightarrow> reply" where
  "check_approvees n cachedTxMeta lsmi flipped =
     (case GetCachedBundleOrNil n (GetTxHash cachedTxMeta) of
        None \<Rightarrow> JSON StatusBadRequest (ErrorReturn ''unknown bundle'')
      | Some cachedBundle \<Rightarrow>
          scan_approvees n lsmi (range_keys flipped (approveeHashes cachedBundle)))"

text \<open>The handler from the read of the conflicting flag on, for a solid tail.\<close>

definition classify :: "'w::len word node \<Rightarrow> TransactionMetadata \<Rightarrow> bool \<Rightarrow> reply" where
  "classify n cachedTxMeta flipped =
     (let conflicting = IsConflicting cachedTxMeta;
          confirmed = (IsConfirmed cachedTxMeta \<and> \<not> conflicting)
      in if confirmed \<or> conflicting then tip_info confirmed conflicting False False
         else
           (let lsmi = GetSolidMilestoneIndex n;
                ytrsi = fst (GetTransactionRootSnapshotIndexes n cachedTxMeta lsmi);
                ortsi = snd (GetTransactionRootSnapshotIndexes n cachedTxMeta lsmi)
            in if lsmi - ortsi > Index (GetInt n CfgTipSelBelowMaxDepth)
               then tip_info False False False True
               else if lsmi - ytrsi
                         > Index (GetInt n CfgTipSelMaxDeltaTxYoungestRootSnapshotIndexToLSMI)
               then tip_info False False True False
               else check_approvees n cachedTxMeta lsmi flipped))"

text \<open>The handler from the lookup of the metadata on, for a decoded query.\<close>

definition lookup_tail :: "'w::len word node \<Rightarrow> GetTipInfo \<Rightarrow> bool \<Rightarrow> reply" where
  "lookup_tail n query flipped =
     (if \<not> IsTransactionHash n (TailTransaction query) then
        JSON StatusBadRequest (ErrorReturn ''invalid tail hash supplied'')
      else
        (case GetCachedTxMetadataOrNil n (HashFromHashTrytes n (TailTransaction query)) of
           None \<Rightarrow> JSON StatusBadRequest (ErrorReturn ''unknown tail transaction'')
         | Some cachedTxMeta \<Rightarrow>
             (if \<not> IsTail cachedTxMeta then
                JSON StatusBadRequest (ErrorReturn ''transaction is not a tail'')
              else if \<not> IsSolid cachedTxMeta then
                JSON StatusBadRequest (ErrorReturn ''transaction is not solid'')
              else classify n cachedTxMeta flipped)))"

definition getTipInfo :: "'w::len word node \<Rightarrow> GetTipInfo decoded \<Rightarrow> bool \<Rightarrow> reply" where
  "getTipInfo n i flipped =
     (if IsSkipped_urts n then
        JSON StatusServiceUnavailable (ErrorReturn ''tipselection plugin disabled in this node'')
      else if \<not> IsNodeSyncedWithThreshold n then
        JSON StatusBadRequest (ErrorReturn ''node is not synced'')
      else
        (case i of
           DecodeError err \<Rightarrow>
             JSON StatusInternalServerError (ErrorReturn (internal_error_text n err))
         | Decoded query \<Rightarrow> lookup_tail n query flipped))"

text \<open>
  A request reaches the classification when the plugin runs, the node is synced, the
  query decodes, its tail hash is well formed and names a known, solid tail; \<open>m\<close> is
  then the metadata the classification works on.
\<close>

definition solid_tail_request :: "'w::len word node \<Rightarrow> GetTipInfo decoded \<Rightarrow> TransactionMetadata \<Rightarrow> bool" where
  "solid_tail_request n i m =
     (\<not> IsSkipped_urts n \<and> IsNodeSyncedWithThreshold n \<and>
      (case i of
         DecodeError err \<Rightarrow> False
       | Decoded query \<Rightarrow>
           IsTransactionHash n (TailTransaction query) \<and>
           GetCachedTxMetadataOrNil n (HashFromHashTrytes n (TailTransaction query)) = Some m \<and>
           IsTail m \<and> IsSolid m))"

section \<open>getTransactionsToApprove\<close>

text \<open>
  \<open>tips[0]\<close> and \<open>tips[1]\<close> panic in Go when the slice is too short; the model says so.
\<close>

definition answer_tips :: "'w::len word node \<Rightarrow> GetTransactionsToApprove \<Rightarrow> hash list \<Rightarrow> reply" where
  "answer_tips n query tips =
     (if length (Reference query) > 0 then
        (if \<not> IsTransactionHash n (Reference query) then
           JSON StatusBadRequest (ErrorReturn ''invalid reference hash supplied'')
         else
           (case tips of
              [] \<Rightarrow> Panic
            | t0 # ts \<Rightarrow>
                JSON StatusOK (TransactionsToApprove
                  \<lparr>TrunkTransaction = Trytes n t0, BranchTransaction = Reference query\<rparr>)))
      else
        (case tips of
           t0 # t1 # ts \<Rightarrow>
             JSON StatusOK (TransactionsToApprove
               \<lparr>TrunkTransaction = Trytes n t0, BranchTransaction = Trytes n t1\<rparr>)
         | _ \<Rightarrow> Panic))"

definition selection_failed :: "'w::len word node \<Rightarrow> go_error \<Rightarrow> reply" where
  "selection_failed n err =
     (if err = ErrNodeNotSynced \<or> err = ErrNoTipsAvailable then
        JSON StatusServiceUnavailable (ErrorReturn (Error n err))
      else JSON StatusInternalServerError (ErrorReturn (internal_error_text n err)))"

definition getTransactionsToApprove :: "'w::len word node \<Rightarrow> GetTransactionsToApprove decoded \<Rightarrow> reply" where
  "getTransactionsToApprove n i =
     (if IsSkipped_urts n then
        JSON StatusServiceUnavailable (ErrorReturn ''tipselection plugin disabled in this node'')
      else
        (case i of
           DecodeError err \<Rightarrow>
             JSON StatusInternalServerError (ErrorReturn (internal_error_text n err))
         | Decoded query \<Rightarrow>
             (case SelectNonLazyTips n of
                Inl err \<Rightarrow> selection_failed n err
              | Inr tips \<Rightarrow> answer_tips n query tips)))"

section \<open>The routes of the REST API\<close>

text \<open>
  \<open>configure\<close> of \<open>plugins/restapi/v1/plugin.go\<close> registers one handler per method and
  route on the group \<open>/api/v1\<close>. The model is the table it builds, in the order of the
  calls, with the routes relative to the group; its two arguments are
  \<open>Plugin.Node.IsSkipped(urts.Plugin)\<close> and \<open>Plugin.Node.IsSkipped(spammer.Plugin)\<close>.
  A handler \<open>H_f\<close> is the registered closure that calls the function \<open>f\<close>.
\<close>

definition ParameterMessageID :: string where "ParameterMessageID = ''messageID''"
definition ParameterOutputID :: string where "ParameterOutputID = ''outputID''"
definition ParameterAddress :: string where "ParameterAddress = ''address''"
definition ParameterMilestoneIndex :: string where "ParameterMilestoneIndex = ''milestoneIndex''"
definition ParameterPeerID :: string where "ParameterPeerID = ''peerID''"

definition RouteInfo :: string where "RouteInfo = ''/info''"
definition RouteTips :: string where "RouteTips = ''/tips''"
definition RouteSpammer :: string where "RouteSpammer = ''/spammer''"
definition RouteMessageData :: string where
  "RouteMessageData = ''/messages/:'' @ ParameterMessageID"
definition RouteMessageMetadata :: string where
  "RouteMessageMetadata = ''/messages/:'' @ ParameterMessageID @ ''/metadata''"
definition RouteMessageBytes :: string where
  "RouteMessageBytes = ''/messages/:'' @ ParameterMessageID @ ''/raw''"
definition RouteMessageChildren :: string where
  "RouteMessageChildren = ''/messages/:'' @ ParameterMessageID @ ''/children''"
definition RouteMessages :: string where "RouteMessages = ''/messages''"
definition RouteMilestone :: string where
  "RouteMilestone = ''/milestones/:'' @ ParameterMilestoneIndex"
definition RouteOutput :: string where "RouteOutput = ''/outputs/:'' @ ParameterOutputID"
definition RouteAddressBalance :: string where
  "RouteAddressBalance = ''/addresses/:'' @ ParameterAddress"
definition RouteAddressOutputs :: string where
  "RouteAddressOutputs = ''/addresses/:'' @ ParameterAddress @ ''/outputs''"
definition RoutePeer :: string where "RoutePeer = ''/peers/:'' @ ParameterPeerID"
definition RoutePeers :: string where "RoutePeers = ''/peers''"
definition RouteControlDatabasePrune :: string where
  "RouteControlDatabasePrune = ''/control/database/prune''"
definition RouteControlSnapshotCreate :: string where
  "RouteControlSnapshotCreate = ''/control/snapshots/create''"
definition RouteDebugSolidifer :: string where "RouteDebugSolidifer = ''/debug/solidifer''"
definition RouteDebugOutputs :: string where "RouteDebugOutputs = ''/debug/outputs''"
definition RouteDebugOutputsUnspent :: string where
  "RouteDebugOutputsUnspent = ''/debug/outputs/unspent''"
definition RouteDebugOutputsSpent :: string where
  "RouteDebugOutputsSpent = ''/debug/outputs/spent''"
definition RouteDebugMilestoneDiffs :: string where
  "RouteDebugMilestoneDiffs = ''/debug/ms-diff/:'' @ ParameterMilestoneIndex"
definition RouteDebugRequests :: string where "RouteDebugRequests = ''/debug/requests''"
definition RouteDebugMessageCone :: string where
  "RouteDebugMessageCone = ''/debug/message-cones/:'' @ ParameterMessageID"

datatype http_method = GET | POST | DELETE

datatype handler =
    H_info | H_tips | H_executeSpammerCommand | H_messageMetadataByID | H_messageByID
  | H_messageBytesByID | H_childrenIDsByID | H_messageIDsByIndex | H_sendMessage
  | H_milestoneByIndex | H_outputByID | H_balanceByAddress | H_outputsIDsByAddress
  | H_getPeer | H_removePeer | H_listPeers | H_addPeer | H_pruneDatabase | H_createSnapshot
  | H_TriggerSolidifier | H_debugOutputsIDs | H_debugUnspentOutputsIDs | H_debugSpentOutputsIDs
  | H_debugMilestoneDiff | H_debugRequests | H_debugMessageCone

type_synonym route = "http_method \<times> string \<times> handler"

definition configure :: "bool \<Rightarrow> bool \<Rightarrow> route list" where
  "configure urts_skipped spammer_skipped =
     [(GET, RouteInfo, H_info)]
     @ (if \<not> urts_skipped then [(GET, RouteTips, H_tips)] else [])
     @ (if \<not> spammer_skipped then [(GET, RouteSpammer, H_executeSpammerCommand)] else [])
     @ [(GET, RouteMessageMetadata, H_messageMetadataByID),
        (GET, RouteMessageData, H_messageByID),
        (GET, RouteMessageBytes, H_messageBytesByID),
        (GET, RouteMessageChildren, H_childrenIDsByID),
        (GET, RouteMessages, H_messageIDsByIndex),
        (POST, RouteMessages, H_sendMessage),
        (GET, RouteMilestone, H_milestoneByIndex),
        (GET, RouteOutput, H_outputByID),
        (GET, RouteAddressBalance, H_balanceByAddress),
        (GET, RouteAddressOutputs, H_outputsIDsByAddress),
        (GET, RoutePeer, H_getPeer),
        (DELETE, RoutePeer, H_removePeer),
        (GET, RoutePeers, H_listPeers),
        (POST, RoutePeers, H_addPeer),
        (GET, RouteControlDatabasePrune, H_pruneDatabase),
        (GET, RouteControlSnapshotCreate, H_createSnapshot),
        (GET, RouteDebugSolidifer, H_TriggerSolidifier),
        (GET, RouteDebugOutputs, H_debugOutputsIDs),
        (GET, RouteDebugOutputsUnspent, H_debugUnspentOutputsIDs),
        (GET, RouteDebugOutputsSpent, H_debugSpentOutputsIDs),
        (GET, RouteDebugMilestoneDiffs, H_debugMilestoneDiff),
        (GET, RouteDebugRequests, H_debugRequests),
        (GET, RouteDebugMessageCone, H_debugMessageCone)]"

text \<open>
  How a request finds its handler: the path is cut at every \<open>/\<close>, a segment of a route
  that starts with \<open>:\<close> stands for any segment of the path, and every other segment
  stands for itself. A request that no registered route matches is not answered by
  a handler of this plugin at all.
\<close>

fun split_path :: "string \<Rightarrow> string list" where
  "split_path [] = [[]]"
| "split_path (c # cs) =
     (if c = CHR ''/'' then [] # split_path cs
      else (case split_path cs of
              [] \<Rightarrow> [[c]]
            | seg # segs \<Rightarrow> (c # seg) # segs))"

definition segment_matches :: "string \<Rightarrow> string \<Rightarrow> bool" where
  "segment_matches pat seg =
     (case pat of
        [] \<Rightarrow> seg = []
      | c # cs \<Rightarrow> (if c = CHR '':'' then True else seg = pat))"

definition route_matches :: "string \<Rightarrow> string \<Rightarrow> bool" where
  "route_matches pat path = list_all2 segment_matches (split_path pat) (split_path path)"

datatype rest_outcome = Handled handler | NoRoute

fun rest_dispatch :: "route list \<Rightarrow> http_method \<Rightarrow> string \<Rightarrow> rest_outcome" where
  "rest_dispatch [] m path = NoRoute"
| "rest_dispatch ((m', pat, h) # routes) m path =
     (if m' = m \<and> route_matches pat path then Handled h else rest_dispatch routes m path)"

section \<open>A small tangle to run the handlers on\<close>

text \<open>
  Transaction hashes are 81 trytes (the letters \<open>A\<close> to \<open>Z\<close> and the digit \<open>9\<close>). The
  example node checks exactly that, and keeps hashes in their trytes form. It holds a
  solid tail whose bundle approves two older tails, at solid milestone 100, with the
  thresholds 15, 8 and 13.
\<close>

definition example_IsTransactionHash :: "trytes \<Rightarrow> bool" where
  "example_IsTransactionHash t =
     (length t = 81 \<and> list_all (\<lambda>c. c \<in> set ''9ABCDEFGHIJKLMNOPQRSTUVWXYZ'') t)"

definition tail_hash :: trytes where
  "tail_hash = ''TAIL99999999999999999999999999999999999999999999999999999999999999999999999999999''"

definition trunk_hash :: trytes where
  "trunk_hash = ''TRUNK9999999999999999999999999999999999999999999999999999999999999999999999999999''"

definition branch_hash :: trytes where
  "branch_hash = ''BRANCH999999999999999999999999999999999999999999999999999999999999999999999999999''"

definition entry_hash :: trytes where
  "entry_hash = ''ENTRY9999999999999999999999999999999999999999999999999999999999999999999999999999''"

definition example_meta :: "hash \<Rightarrow> TransactionMetadata" where
  "example_meta h =
     \<lparr>GetTxHash = h, IsTail = True, IsSolid = True, IsConflicting = False, IsConfirmed = False\<rparr>"

definition example_Error :: "go_error \<Rightarrow> string" where
  "example_Error err =
     (case err of
        ErrInternalError \<Rightarrow> ''internal error''
      | ErrNodeNotSynced \<Rightarrow> ''node is not synced''
      | ErrNoTipsAvailable \<Rightarrow> ''no tips available''
      | OtherError text \<Rightarrow> text)"

definition example_GetInt :: "cfg_key \<Rightarrow> int" where
  "example_GetInt key =
     (case key of
        CfgTipSelBelowMaxDepth \<Rightarrow> 15
      | CfgTipSelMaxDeltaTxYoungestRootSnapshotIndexToLSMI \<Rightarrow> 8
      | CfgTipSelMaxDeltaTxApproveesOldestRootSnapshotIndexToLSMI \<Rightarrow> 13)"

definition example_indexes :: "TransactionMetadata \<Rightarrow> 32 word \<Rightarrow> 32 word \<times> 32 word" where
  "example_indexes m lsmi =
     (if GetTxHash m = tail_hash then (98, 95)
      else if GetTxHash m = trunk_hash then (97, 96)
      else (95, 95))"

definition example_node :: "32 word node" where
  "example_node =
     \<lparr>IsSkipped_urts = False,
      IsNodeSyncedWithThreshold = True,
      IsTransactionHash = example_IsTransactionHash,
      HashFromHashTrytes = (\<lambda>t. t),
      Trytes = (\<lambda>h. h),
      GetCachedTxMetadataOrNil =
        [tail_hash \<mapsto> example_meta tail_hash,
         trunk_hash \<mapsto> example_meta trunk_hash,
         branch_hash \<mapsto> example_meta branch_hash],
      GetCachedBundleOrNil =
        [tail_hash \<mapsto> \<lparr>GetTrunkHash = trunk_hash, GetBranchHash = branch_hash\<rparr>],
      GetSolidMilestoneIndex = 100,
      GetTransactionRootSnapshotIndexes = example_indexes,
      SolidEntryPointsContain = (\<lambda>h. h = entry_hash),
      EntryPointIndex = 50,
      GetInt = example_GetInt,
      SelectNonLazyTips = Inr [trunk_hash, branch_hash],
      Error = example_Error\<rparr>"

definition tail_query :: "GetTipInfo decoded" where
  "tail_query = Decoded \<lparr>TailTransaction = tail_hash\<rparr>"

text \<open>Variants of the example node, one per situation the handlers tell apart.\<close>

definition conflicting_node :: "32 word node" where
  "conflicting_node =
     example_node\<lparr>GetCachedTxMetadataOrNil :=
       [tail_hash \<mapsto> (example_meta tail_hash)\<lparr>IsConflicting := True, IsConfirmed := True\<rparr>]\<rparr>"

text \<open>
  Solid milestone 116 and a tip with OTRSI 80 and YTRSI 90: further than 15 below the
  solid milestone, and past the two later thresholds as well.
\<close>

definition below_max_depth_node :: "32 word node" where
  "below_max_depth_node =
     example_node\<lparr>GetSolidMilestoneIndex := 116,
                   GetTransactionRootSnapshotIndexes := (\<lambda>m lsmi. (90, 80))\<rparr>"

text \<open>A tip with OTRSI 88 and YTRSI 90 at solid milestone 100, and no bundle stored.\<close>

definition old_cone_node :: "32 word node" where
  "old_cone_node =
     example_node\<lparr>GetTransactionRootSnapshotIndexes := (\<lambda>m lsmi. (90, 88)),
                   GetCachedBundleOrNil := Map.empty\<rparr>"

text \<open>The branch of the bundle is a solid entry point, of index 50.\<close>

definition entry_point_node :: "32 word node" where
  "entry_point_node =
     example_node\<lparr>GetCachedBundleOrNil :=
       [tail_hash \<mapsto> \<lparr>GetTrunkHash = trunk_hash, GetBranchHash = entry_hash\<rparr>]\<rparr>"

text \<open>
  The trunk of the bundle is a stored transaction with YTRSI 97 and OTRSI 80: its youngest
  root is 3 below the solid milestone, its oldest root 20.
\<close>

definition old_approvee_node :: "32 word node" where
  "old_approvee_node =
     example_node\<lparr>GetTransactionRootSnapshotIndexes :=
       (\<lambda>m lsmi. if GetTxHash m = trunk_hash then (97, 80) else (98, 95))\<rparr>"

text \<open>The trunk of the bundle has no metadata and is no solid entry point.\<close>

definition missing_approvee_node :: "32 word node" where
  "missing_approvee_node =
     example_node\<lparr>GetCachedTxMetadataOrNil :=
       [tail_hash \<mapsto> example_meta tail_hash, branch_hash \<mapsto> example_meta branch_hash]\<rparr>"

text \<open>A node that is not synced; its tip selection refuses with \<open>ErrNodeNotSynced\<close>.\<close>

definition unsynced_node :: "32 word node" where
  "unsynced_node =
     example_node\<lparr>IsNodeSyncedWithThreshold := False,
                   SelectNonLazyTips := Inl ErrNodeNotSynced\<rparr>"

definition empty_pool_node :: "32 word node" where
  "empty_pool_node = example_node\<lparr>SelectNonLazyTips := Inl ErrNoTipsAvailable\<rparr>"

definition failing_node :: "32 word node" where
  "failing_node = example_node\<lparr>SelectNonLazyTips := Inl (OtherError ''selection timed out'')\<rparr>"

definition disabled_node :: "32 word node" where
  "disabled_node = example_node\<lparr>IsSkipped_urts := True\<rparr>"

text \<open>The stored transaction is not a tail, or is a tail that is not solid.\<close>

definition non_tail_node :: "32 word node" where
  "non_tail_node =
     example_node\<lparr>GetCachedTxMetadataOrNil :=
       [tail_hash \<mapsto> (example_meta tail_hash)\<lparr>IsTail := False, IsSolid := False\<rparr>]\<rparr>"

definition non_solid_node :: "32 word node" where
  "non_solid_node =
     example_node\<lparr>GetCachedTxMetadataOrNil :=
       [tail_hash \<mapsto> (example_meta tail_hash)\<lparr>IsSolid := False\<rparr>]\<rparr>"

definition reference_query :: "trytes \<Rightarrow> GetTransactionsToApprove decoded" where
  "reference_query r = Decoded \<lparr>Reference = r\<rparr>"

section \<open>Facts shared by the proofs\<close>

lemmas http_status_defs =
  StatusOK_def StatusBadRequest_def StatusInternalServerError_def StatusServiceUnavailable_def

lemmas example_defs =
  example_node_def example_IsTransactionHash_def example_meta_def example_Error_def
  example_GetInt_def example_indexes_def tail_hash_def trunk_hash_def branch_hash_def
  entry_hash_def tail_query_def reference_query_def

lemmas handler_defs =
  getTipInfo_def lookup_tail_def classify_def check_approvees_def approveeHashes_def
  range_keys_def approveeORTSI_def tip_info_def Index_def
  getTransactionsToApprove_def selection_failed_def answer_tips_def internal_error_text_def


text \<open>
  Where the indexes are ordered as the spec's invariant says (OTRSI \<open>\<le>\<close> LSMI) and the
  configured threshold fits the index type, the handler's unsigned comparison is the
  comparison of the integer difference with the threshold.
\<close>

lemma unat_Index:
  assumes "0 \<le> c" and "c < 2 ^ LENGTH('w::len)"
  shows "unat (Index c :: 'w word) = nat c"
  using assms by (simp add: Index_def unat_eq_nat_uint uint_word_of_int)

lemma delta_exceeds_iff:
  fixes lsmi otrsi :: "'w::len word"
  assumes "otrsi \<le> lsmi" and "0 \<le> c" and "c < 2 ^ LENGTH('w)"
  shows "(lsmi - otrsi > (Index c :: 'w word)) = (int (unat lsmi) - int (unat otrsi) > c)"
proof -
  have le: "unat otrsi \<le> unat lsmi"
    using assms(1) by (simp add: word_le_nat_alt)
  have "unat (lsmi - otrsi) = unat lsmi - unat otrsi"
    using assms(1) by (simp add: unat_sub)
  then have "(lsmi - otrsi > (Index c :: 'w word)) = (nat c < unat lsmi - unat otrsi)"
    using assms by (simp add: word_less_nat_alt unat_Index)
  also have "\<dots> = (int (unat lsmi) - int (unat otrsi) > c)"
    using le assms(2) by linarith
  finally show ?thesis .
qed

lemma getTipInfo_solid_tail:
  "solid_tail_request n i m \<Longrightarrow> getTipInfo n i flipped = classify n m flipped"
  by (cases i) (simp_all add: solid_tail_request_def getTipInfo_def lookup_tail_def)

lemma set_range_keys:
  "set (range_keys flipped (approveeHashes b)) = {GetTrunkHash b, GetBranchHash b}"
  by (auto simp: range_keys_def approveeHashes_def)

text \<open>
  The OTRSI of an approvee that is a solid entry point or has metadata, written out.
\<close>

lemma approveeORTSI_resolved:
  "SolidEntryPointsContain n h \<or> GetCachedTxMetadataOrNil n h \<noteq> None \<Longrightarrow>
   approveeORTSI n lsmi h =
     Some (if SolidEntryPointsContain n h then EntryPointIndex n
           else snd (GetTransactionRootSnapshotIndexes n (the (GetCachedTxMetadataOrNil n h)) lsmi))"
  by (auto simp: approveeORTSI_def)

text \<open>
  When every approvee has an OTRSI, the loop answers "promote" exactly when one of them
  is too far below the solid milestone, in whatever order it visits them.
\<close>

lemma scan_approvees_resolved:
  "\<forall>h\<in>set hs. approveeORTSI n lsmi h \<noteq> None \<Longrightarrow>
   scan_approvees n lsmi hs =
     tip_info False False
       (\<exists>h\<in>set hs. \<exists>ortsi. approveeORTSI n lsmi h = Some ortsi \<and>
          lsmi - ortsi > Index (GetInt n CfgTipSelMaxDeltaTxApproveesOldestRootSnapshotIndexToLSMI))
       False"
proof (induction hs)
  case Nil
  then show ?case by simp
next
  case (Cons h hs)
  then obtain ortsi where h: "approveeORTSI n lsmi h = Some ortsi" by auto
  from Cons have "\<forall>h\<in>set hs. approveeORTSI n lsmi h \<noteq> None" by simp
  with Cons.IH h show ?case by (auto simp: tip_info_def)
qed

lemma tips_not_routed_all:
  "list_all (\<lambda>s. list_all (\<lambda>m. rest_dispatch (configure True s) m RouteTips = NoRoute)
      [GET, POST, DELETE]) [True, False]"
  by code_simp

lemma tips_not_routed: "rest_dispatch (configure True spammer_skipped) m RouteTips = NoRoute"
  using tips_not_routed_all by (cases spammer_skipped; cases m) simp_all

section \<open>Classification of a solid tail by getTipInfo\<close>

text \<open>
  C1. For every solid tail that is marked confirmed and also conflicting, \<open>getTipInfo\<close>
  answers \<open>{confirmed: false, conflicting: true, shouldPromote: false, shouldReattach:
  false}\<close>: the conflicting flag masks the confirmed flag. The answer holds for every
  node, so whatever the solid milestone, the root snapshot indexes, the thresholds and the
  approvees are: none of the threshold tests takes part in it.
\<close>

theorem getTipInfo_conflicting_masks_confirmed:
  "solid_tail_request n i m \<Longrightarrow> IsConfirmed m \<Longrightarrow> IsConflicting m \<Longrightarrow>
   getTipInfo n i flipped =
     JSON StatusOK (TipInfo \<lparr>Confirmed = False, Conflicting = True,
                              ShouldPromote = False, ShouldReattach = False\<rparr>)"
  by (simp add: getTipInfo_solid_tail classify_def tip_info_def)

theorem getTipInfo_conflicting_masks_confirmed_witness:
  "solid_tail_request conflicting_node tail_query
     ((example_meta tail_hash)\<lparr>IsConflicting := True, IsConfirmed := True\<rparr>)
   \<and> IsConfirmed ((example_meta tail_hash)\<lparr>IsConflicting := True, IsConfirmed := True\<rparr>)
   \<and> IsConflicting ((example_meta tail_hash)\<lparr>IsConflicting := True, IsConfirmed := True\<rparr>)
   \<and> getTipInfo conflicting_node tail_query False =
     JSON 200 (TipInfo \<lparr>Confirmed = False, Conflicting = True,
                         ShouldPromote = False, ShouldReattach = False\<rparr>)"
  using getTipInfo_conflicting_masks_confirmed [of conflicting_node tail_query
     "(example_meta tail_hash)\<lparr>IsConflicting := True, IsConfirmed := True\<rparr>" False]
  by (simp add: solid_tail_request_def example_defs conflicting_node_def http_status_defs)

text \<open>
  C2. For every solid tail that is neither confirmed nor conflicting and whose delta
  LSMI - OTRSI(tip), as the handler computes it, exceeds the configured below-max-depth
  threshold, \<open>getTipInfo\<close> answers \<open>{confirmed: false, conflicting: false,
  shouldPromote: false, shouldReattach: true}\<close>. Nothing is assumed about the YTRSI of the
  tip or about its approvees: the test comes first, and the answer is "reattach" also when
  the later thresholds are passed as well.
\<close>

theorem getTipInfo_below_max_depth_reattach:
  "solid_tail_request n i m \<Longrightarrow> \<not> IsConfirmed m \<Longrightarrow> \<not> IsConflicting m \<Longrightarrow>
   GetSolidMilestoneIndex n
       - snd (GetTransactionRootSnapshotIndexes n m (GetSolidMilestoneIndex n))
     > Index (GetInt n CfgTipSelBelowMaxDepth) \<Longrightarrow>
   getTipInfo n i flipped =
     JSON StatusOK (TipInfo \<lparr>Confirmed = False, Conflicting = False,
                              ShouldPromote = False, ShouldReattach = True\<rparr>)"
  by (simp add: getTipInfo_solid_tail classify_def tip_info_def Let_def)

text \<open>
  The witness is the tip of the spec's scenario 3 (threshold 15, OTRSI 80, solid
  milestone 116); its YTRSI 90 is also more than 8 below the solid milestone.
\<close>

theorem getTipInfo_below_max_depth_reattach_witness:
  "solid_tail_request below_max_depth_node tail_query (example_meta tail_hash)
   \<and> \<not> IsConfirmed (example_meta tail_hash) \<and> \<not> IsConflicting (example_meta tail_hash)
   \<and> (116 :: 32 word) - 80 > Index 15
   \<and> (116 :: 32 word) - 90 > Index 8
   \<and> getTipInfo below_max_depth_node tail_query False =
     JSON 200 (TipInfo \<lparr>Confirmed = False, Conflicting = False,
                         ShouldPromote = False, ShouldReattach = True\<rparr>)"
  using getTipInfo_below_max_depth_reattach [of below_max_depth_node tail_query
     "example_meta tail_hash" False]
  by (simp add: solid_tail_request_def example_defs below_max_depth_node_def http_status_defs Index_def)

text \<open>
  C3. For every solid tail that is neither confirmed nor conflicting, whose delta
  LSMI - OTRSI(tip) does not exceed the below-max-depth threshold and whose delta
  LSMI - YTRSI(tip) exceeds the configured maximum, \<open>getTipInfo\<close> answers \<open>{confirmed:
  false, conflicting: false, shouldPromote: true, shouldReattach: false}\<close>. Nothing is
  assumed about the bundle or the approvees: they are not consulted.
\<close>

theorem getTipInfo_youngest_root_promote:
  "solid_tail_request n i m \<Longrightarrow> \<not> IsConfirmed m \<Longrightarrow> \<not> IsConflicting m \<Longrightarrow>
   \<not> GetSolidMilestoneIndex n
         - snd (GetTransactionRootSnapshotIndexes n m (GetSolidMilestoneIndex n))
       > Index (GetInt n CfgTipSelBelowMaxDepth) \<Longrightarrow>
   GetSolidMilestoneIndex n
       - fst (GetTransactionRootSnapshotIndexes n m (GetSolidMilestoneIndex n))
     > Index (GetInt n CfgTipSelMaxDeltaTxYoungestRootSnapshotIndexToLSMI) \<Longrightarrow>
   getTipInfo n i flipped =
     JSON StatusOK (TipInfo \<lparr>Confirmed = False, Conflicting = False,
                              ShouldPromote = True, ShouldReattach = False\<rparr>)"
  by (simp add: getTipInfo_solid_tail classify_def tip_info_def Let_def)

text \<open>The witness node stores no bundle at all for the tip.\<close>

theorem getTipInfo_youngest_root_promote_witness:
  "solid_tail_request old_cone_node tail_query (example_meta tail_hash)
   \<and> \<not> IsConfirmed (example_meta tail_hash) \<and> \<not> IsConflicting (example_meta tail_hash)
   \<and> \<not> (100 :: 32 word) - 88 > Index 15
   \<and> (100 :: 32 word) - 90 > Index 8
   \<and> GetCachedBundleOrNil old_cone_node tail_hash = None
   \<and> getTipInfo old_cone_node tail_query False =
     JSON 200 (TipInfo \<lparr>Confirmed = False, Conflicting = False,
                         ShouldPromote = True, ShouldReattach = False\<rparr>)"
  using getTipInfo_youngest_root_promote [of old_cone_node tail_query
     "example_meta tail_hash" False]
  by (simp add: solid_tail_request_def example_defs old_cone_node_def http_status_defs Index_def)

text \<open>
  C4, as the spec states it, fails: a solid tail that is neither confirmed nor conflicting
  and passes both tests does not always get one of the two answers with status 200. On the
  node below the trunk of the bundle has no metadata and is no solid entry point; no
  approvee is further than 13 below the solid milestone, and the answer is status 400,
  "approvee transaction not found", in either order of the loop.
\<close>

theorem getTipInfo_approvee_scan_counterexample:
  "solid_tail_request missing_approvee_node tail_query (example_meta tail_hash)
   \<and> \<not> IsConfirmed (example_meta tail_hash) \<and> \<not> IsConflicting (example_meta tail_hash)
   \<and> \<not> GetSolidMilestoneIndex missing_approvee_node
           - snd (GetTransactionRootSnapshotIndexes missing_approvee_node
                    (example_meta tail_hash) (GetSolidMilestoneIndex missing_approvee_node))
         > Index (GetInt missing_approvee_node CfgTipSelBelowMaxDepth)
   \<and> \<not> GetSolidMilestoneIndex missing_approvee_node
           - fst (GetTransactionRootSnapshotIndexes missing_approvee_node
                    (example_meta tail_hash) (GetSolidMilestoneIndex missing_approvee_node))
         > Index (GetInt missing_approvee_node
                    CfgTipSelMaxDeltaTxYoungestRootSnapshotIndexToLSMI)
   \<and> getTipInfo missing_approvee_node tail_query False =
       JSON 400 (ErrorReturn (''approvee transaction not found: '' @ trunk_hash))
   \<and> getTipInfo missing_approvee_node tail_query True =
       JSON 400 (ErrorReturn (''approvee transaction not found: '' @ trunk_hash))"
  by (simp add: solid_tail_request_def handler_defs example_defs missing_approvee_node_def http_status_defs)

text \<open>
  C4, amended. For every solid tail that is neither confirmed nor conflicting, that passes
  both the below-max-depth test and the YTRSI test, whose bundle is stored and whose
  approvees (the trunk and the branch of the bundle) are each a solid entry point or have
  metadata, \<open>getTipInfo\<close> answers with \<open>confirmed\<close>, \<open>conflicting\<close> and
  \<open>shouldReattach\<close> false, and with \<open>shouldPromote\<close> true if and only if some approvee
  has LSMI - OTRSI(approvee) above the configured maximum; so all four flags are false
  otherwise. The OTRSI of an approvee is the entry point index when the approvee is a solid
  entry point, and else the second root snapshot index of its stored metadata. The answer
  is the same in either order of the loop.
\<close>

theorem getTipInfo_approvee_scan:
  assumes "solid_tail_request n i m" and "\<not> IsConfirmed m" and "\<not> IsConflicting m"
    and "lsmi = GetSolidMilestoneIndex n"
    and "\<not> lsmi - snd (GetTransactionRootSnapshotIndexes n m lsmi)
            > Index (GetInt n CfgTipSelBelowMaxDepth)"
    and "\<not> lsmi - fst (GetTransactionRootSnapshotIndexes n m lsmi)
            > Index (GetInt n CfgTipSelMaxDeltaTxYoungestRootSnapshotIndexToLSMI)"
    and "GetCachedBundleOrNil n (GetTxHash m) = Some b"
    and "\<forall>h \<in> {GetTrunkHash b, GetBranchHash b}.
           SolidEntryPointsContain n h \<or> GetCachedTxMetadataOrNil n h \<noteq> None"
  shows "getTipInfo n i flipped =
     JSON StatusOK (TipInfo
       \<lparr>Confirmed = False, Conflicting = False,
        ShouldPromote =
          (\<exists>h \<in> {GetTrunkHash b, GetBranchHash b}.
             lsmi - (if SolidEntryPointsContain n h then EntryPointIndex n
                     else snd (GetTransactionRootSnapshotIndexes n
                                 (the (GetCachedTxMetadataOrNil n h)) lsmi))
               > Index (GetInt n CfgTipSelMaxDeltaTxApproveesOldestRootSnapshotIndexToLSMI)),
        ShouldReattach = False\<rparr>)"
proof -
  let ?hs = "{GetTrunkHash b, GetBranchHash b}"
  let ?ortsi = "\<lambda>h. if SolidEntryPointsContain n h then EntryPointIndex n
                     else snd (GetTransactionRootSnapshotIndexes n
                                 (the (GetCachedTxMetadataOrNil n h)) lsmi)"
  let ?max = "Index (GetInt n CfgTipSelMaxDeltaTxApproveesOldestRootSnapshotIndexToLSMI) :: 'a word"
  have known: "\<forall>h\<in>?hs. approveeORTSI n lsmi h = Some (?ortsi h)"
    using assms(8) by (auto simp: approveeORTSI_resolved simp del: insert_iff)
  then have res: "\<forall>h\<in>set (range_keys flipped (approveeHashes b)). approveeORTSI n lsmi h \<noteq> None"
    unfolding set_range_keys by simp
  have promote: "(\<exists>h\<in>?hs. \<exists>ortsi. approveeORTSI n lsmi h = Some ortsi \<and> lsmi - ortsi > ?max)
      = (\<exists>h\<in>?hs. lsmi - ?ortsi h > ?max)"
    using known by (auto simp del: insert_iff)
  have "getTipInfo n i flipped = check_approvees n m lsmi flipped"
    using assms(1-6) by (simp add: getTipInfo_solid_tail classify_def Let_def)
  also have "\<dots> = scan_approvees n lsmi (range_keys flipped (approveeHashes b))"
    using assms(7) by (simp add: check_approvees_def)
  also have "\<dots> = tip_info False False (\<exists>h\<in>?hs. lsmi - ?ortsi h > ?max) False"
    unfolding scan_approvees_resolved [OF res] set_range_keys promote ..
  finally show ?thesis
    by (simp only: tip_info_def)
qed

text \<open>
  Three witnesses, all at solid milestone 100 with the maximum 13: the example node, whose
  approvees have OTRSI 96 and 95; the node whose trunk is a stored transaction with YTRSI
  97 and OTRSI 80; and the node whose branch is a solid entry point of index 50.
\<close>

theorem getTipInfo_approvee_scan_witness:
  "solid_tail_request example_node tail_query (example_meta tail_hash)
   \<and> solid_tail_request old_approvee_node tail_query (example_meta tail_hash)
   \<and> solid_tail_request entry_point_node tail_query (example_meta tail_hash)
   \<and> getTipInfo example_node tail_query False =
       JSON 200 (TipInfo \<lparr>Confirmed = False, Conflicting = False,
                           ShouldPromote = False, ShouldReattach = False\<rparr>)
   \<and> GetTransactionRootSnapshotIndexes old_approvee_node (example_meta trunk_hash) 100 = (97, 80)
   \<and> getTipInfo old_approvee_node tail_query False =
       JSON 200 (TipInfo \<lparr>Confirmed = False, Conflicting = False,
                           ShouldPromote = True, ShouldReattach = False\<rparr>)
   \<and> getTipInfo entry_point_node tail_query True =
       JSON 200 (TipInfo \<lparr>Confirmed = False, Conflicting = False,
                           ShouldPromote = True, ShouldReattach = False\<rparr>)"
proof -
  let ?m = "example_meta tail_hash"
  let ?b = "\<lparr>GetTrunkHash = trunk_hash, GetBranchHash = branch_hash\<rparr>"
  let ?b' = "\<lparr>GetTrunkHash = trunk_hash, GetBranchHash = entry_hash\<rparr>"
  have flags: "\<not> IsConfirmed ?m" "\<not> IsConflicting ?m"
    by (simp_all add: example_defs)

  have s: "solid_tail_request example_node tail_query ?m"
    by (simp add: solid_tail_request_def example_defs)
  have l: "(100 :: 32 word) = GetSolidMilestoneIndex example_node"
    by (simp add: example_defs)
  have t1: "\<not> (100 :: 32 word) - snd (GetTransactionRootSnapshotIndexes example_node ?m 100)
            > Index (GetInt example_node CfgTipSelBelowMaxDepth)"
    by (simp add: example_defs Index_def)
  have t2: "\<not> (100 :: 32 word) - fst (GetTransactionRootSnapshotIndexes example_node ?m 100)
            > Index (GetInt example_node CfgTipSelMaxDeltaTxYoungestRootSnapshotIndexToLSMI)"
    by (simp add: example_defs Index_def)
  have b: "GetCachedBundleOrNil example_node (GetTxHash ?m) = Some ?b"
    by (simp add: example_defs)
  have r: "\<forall>h \<in> {GetTrunkHash ?b, GetBranchHash ?b}.
           SolidEntryPointsContain example_node h \<or> GetCachedTxMetadataOrNil example_node h \<noteq> None"
    by (simp add: example_defs)
  have e1: "getTipInfo example_node tail_query False =
       JSON 200 (TipInfo \<lparr>Confirmed = False, Conflicting = False,
                           ShouldPromote = False, ShouldReattach = False\<rparr>)"
    using getTipInfo_approvee_scan [OF s flags l t1 t2 b r, of False]
    by (simp add: example_defs Index_def http_status_defs)

  have so: "solid_tail_request old_approvee_node tail_query ?m"
    by (simp add: solid_tail_request_def example_defs old_approvee_node_def)
  have lo: "(100 :: 32 word) = GetSolidMilestoneIndex old_approvee_node"
    by (simp add: example_defs old_approvee_node_def)
  have t1o: "\<not> (100 :: 32 word) - snd (GetTransactionRootSnapshotIndexes old_approvee_node ?m 100)
            > Index (GetInt old_approvee_node CfgTipSelBelowMaxDepth)"
    by (simp add: example_defs old_approvee_node_def Index_def)
  have t2o: "\<not> (100 :: 32 word) - fst (GetTransactionRootSnapshotIndexes old_approvee_node ?m 100)
            > Index (GetInt old_approvee_node CfgTipSelMaxDeltaTxYoungestRootSnapshotIndexToLSMI)"
    by (simp add: example_defs old_approvee_node_def Index_def)
  have bo: "GetCachedBundleOrNil old_approvee_node (GetTxHash ?m) = Some ?b"
    by (simp add: example_defs old_approvee_node_def)
  have ro: "\<forall>h \<in> {GetTrunkHash ?b, GetBranchHash ?b}.
           SolidEntryPointsContain old_approvee_node h
           \<or> GetCachedTxMetadataOrNil old_approvee_node h \<noteq> None"
    by (simp add: example_defs old_approvee_node_def)
  have io: "GetTransactionRootSnapshotIndexes old_approvee_node (example_meta trunk_hash) 100
              = (97, 80)"
    by (simp add: example_defs old_approvee_node_def)
  have e2: "getTipInfo old_approvee_node tail_query False =
       JSON 200 (TipInfo \<lparr>Confirmed = False, Conflicting = False,
                           ShouldPromote = True, ShouldReattach = False\<rparr>)"
    using getTipInfo_approvee_scan [OF so flags lo t1o t2o bo ro, of False]
    by (simp add: example_defs old_approvee_node_def Index_def http_status_defs)

  have s': "solid_tail_request entry_point_node tail_query ?m"
    by (simp add: solid_tail_request_def example_defs entry_point_node_def)
  have l': "(100 :: 32 word) = GetSolidMilestoneIndex entry_point_node"
    by (simp add: example_defs entry_point_node_def)
  have t1': "\<not> (100 :: 32 word) - snd (GetTransactionRootSnapshotIndexes entry_point_node ?m 100)
            > Index (GetInt entry_point_node CfgTipSelBelowMaxDepth)"
    by (simp add: example_defs entry_point_node_def Index_def)
  have t2': "\<not> (100 :: 32 word) - fst (GetTransactionRootSnapshotIndexes entry_point_node ?m 100)
            > Index (GetInt entry_point_node CfgTipSelMaxDeltaTxYoungestRootSnapshotIndexToLSMI)"
    by (simp add: example_defs entry_point_node_def Index_def)
  have b': "GetCachedBundleOrNil entry_point_node (GetTxHash ?m) = Some ?b'"
    by (simp add: example_defs entry_point_node_def)
  have r': "\<forall>h \<in> {GetTrunkHash ?b', GetBranchHash ?b'}.
           SolidEntryPointsContain entry_point_node h
           \<or> GetCachedTxMetadataOrNil entry_point_node h \<noteq> None"
    by (simp add: example_defs entry_point_node_def)
  have e3: "getTipInfo entry_point_node tail_query True =
       JSON 200 (TipInfo \<lparr>Confirmed = False, Conflicting = False,
                           ShouldPromote = True, ShouldReattach = False\<rparr>)"
    using getTipInfo_approvee_scan [OF s' flags l' t1' t2' b' r', of True]
    by (simp add: example_defs entry_point_node_def Index_def http_status_defs)

  show ?thesis using s so s' e1 io e2 e3 by simp
qed

section \<open>The faults getTipInfo reports before it classifies\<close>

text \<open>
  C7. With the plugin running and the node synced, \<open>getTipInfo\<close> answers a decoded
  query with status 400 and a diagnostic for each client fault, in this order: a tail hash
  that is not a transaction hash; then a hash with no metadata; then a transaction that is
  not a tail; then a tail that is not solid. A request that fails an earlier check gets the
  answer of that check whatever the later ones would say, and an answer that carries the
  four flags is given only to a request that passed all four checks.
\<close>

theorem getTipInfo_client_faults:
  assumes "\<not> IsSkipped_urts n" and "IsNodeSyncedWithThreshold n"
  shows
    "(\<not> IsTransactionHash n (TailTransaction q) \<longrightarrow>
        getTipInfo n (Decoded q) flipped =
          JSON StatusBadRequest (ErrorReturn ''invalid tail hash supplied''))
     \<and> (IsTransactionHash n (TailTransaction q) \<and>
        GetCachedTxMetadataOrNil n (HashFromHashTrytes n (TailTransaction q)) = None \<longrightarrow>
        getTipInfo n (Decoded q) flipped =
          JSON StatusBadRequest (ErrorReturn ''unknown tail transaction''))
     \<and> (\<forall>m. IsTransactionHash n (TailTransaction q) \<and>
        GetCachedTxMetadataOrNil n (HashFromHashTrytes n (TailTransaction q)) = Some m \<and>
        \<not> IsTail m \<longrightarrow>
        getTipInfo n (Decoded q) flipped =
          JSON StatusBadRequest (ErrorReturn ''transaction is not a tail''))
     \<and> (\<forall>m. IsTransactionHash n (TailTransaction q) \<and>
        GetCachedTxMetadataOrNil n (HashFromHashTrytes n (TailTransaction q)) = Some m \<and>
        IsTail m \<and> \<not> IsSolid m \<longrightarrow>
        getTipInfo n (Decoded q) flipped =
          JSON StatusBadRequest (ErrorReturn ''transaction is not solid''))
     \<and> ((\<exists>r. getTipInfo n (Decoded q) flipped = JSON StatusOK (TipInfo r)) \<longrightarrow>
        IsTransactionHash n (TailTransaction q) \<and>
        (\<exists>m. GetCachedTxMetadataOrNil n (HashFromHashTrytes n (TailTransaction q)) = Some m \<and>
             IsTail m \<and> IsSolid m))"
  using assms
  by (auto simp: getTipInfo_def lookup_tail_def split: option.splits)

text \<open>
  One request per fault. The stored transaction of the third one is neither a tail nor
  solid, and the answer is that of the earlier check.
\<close>

theorem getTipInfo_client_faults_witness:
  "\<not> IsSkipped_urts example_node \<and> IsNodeSyncedWithThreshold example_node
   \<and> getTipInfo example_node (Decoded \<lparr>TailTransaction = ''not a hash''\<rparr>) False =
     JSON 400 (ErrorReturn ''invalid tail hash supplied'')
   \<and> getTipInfo example_node (Decoded \<lparr>TailTransaction = entry_hash\<rparr>) False =
     JSON 400 (ErrorReturn ''unknown tail transaction'')
   \<and> getTipInfo non_tail_node tail_query False =
     JSON 400 (ErrorReturn ''transaction is not a tail'')
   \<and> getTipInfo non_solid_node tail_query False =
     JSON 400 (ErrorReturn ''transaction is not solid'')"
  using getTipInfo_client_faults [of example_node "\<lparr>TailTransaction = ''not a hash''\<rparr>" False]
    getTipInfo_client_faults [of example_node "\<lparr>TailTransaction = entry_hash\<rparr>" False]
    getTipInfo_client_faults [of non_tail_node "\<lparr>TailTransaction = tail_hash\<rparr>" False]
    getTipInfo_client_faults [of non_solid_node "\<lparr>TailTransaction = tail_hash\<rparr>" False]
  by (simp add: example_defs non_tail_node_def non_solid_node_def http_status_defs)

text \<open>
  C8. The spec surfaces the condition "node not synced" with status 503. On a node that is
  not synced \<open>getTipInfo\<close> answers "node is not synced" with status 400, while
  \<open>getTransactionsToApprove\<close>, on the same node, answers the same condition with
  status 503.
\<close>

theorem getTipInfo_not_synced_status:
  "getTipInfo unsynced_node tail_query False = JSON 400 (ErrorReturn ''node is not synced'')
   \<and> getTransactionsToApprove unsynced_node (reference_query []) =
       JSON 503 (ErrorReturn ''node is not synced'')"
  by (simp add: handler_defs example_defs unsynced_node_def http_status_defs)

section \<open>The answers of getTransactionsToApprove\<close>

text \<open>
  C5, as the spec states it, fails: not every request with a non-empty reference is
  answered by the check of the reference. The tips are selected first, and on a node whose
  pool is empty the request is answered with status 503, "no tips available", whether its
  reference is malformed or a well-formed hash.
\<close>

theorem getTransactionsToApprove_reference_override_counterexample:
  "\<not> IsSkipped_urts empty_pool_node
   \<and> \<not> IsTransactionHash empty_pool_node ''not a hash''
   \<and> getTransactionsToApprove empty_pool_node (reference_query ''not a hash'') =
       JSON 503 (ErrorReturn ''no tips available'')
   \<and> IsTransactionHash empty_pool_node entry_hash
   \<and> getTransactionsToApprove empty_pool_node (reference_query entry_hash) =
       JSON 503 (ErrorReturn ''no tips available'')"
  by (simp add: handler_defs example_defs empty_pool_node_def http_status_defs)

text \<open>
  C5, amended. For every request with a non-empty reference for which the tip selection
  succeeded (the plugin runs, the query decodes, the selection returned its tips): if the
  reference is a transaction hash, the answer is the first selected tip as trunk and the
  reference itself as branch; if it is not, the answer is status 400, "invalid reference
  hash supplied". Nothing but the syntax of the reference is looked at: the theorem holds
  whatever the node stores about it.
\<close>

theorem getTransactionsToApprove_reference_override:
  assumes "\<not> IsSkipped_urts n" and "SelectNonLazyTips n = Inr (t0 # ts)"
    and "Reference q \<noteq> []"
  shows "getTransactionsToApprove n (Decoded q) =
     (if IsTransactionHash n (Reference q)
      then JSON StatusOK (TransactionsToApprove
             \<lparr>TrunkTransaction = Trytes n t0, BranchTransaction = Reference q\<rparr>)
      else JSON StatusBadRequest (ErrorReturn ''invalid reference hash supplied''))"
  using assms by (simp add: getTransactionsToApprove_def answer_tips_def)

text \<open>
  The reference of the first request is a well-formed hash of which the node has no
  metadata.
\<close>

theorem getTransactionsToApprove_reference_override_witness:
  "\<not> IsSkipped_urts example_node
   \<and> SelectNonLazyTips example_node = Inr [trunk_hash, branch_hash]
   \<and> GetCachedTxMetadataOrNil example_node entry_hash = None
   \<and> getTransactionsToApprove example_node (reference_query entry_hash) =
     JSON 200 (TransactionsToApprove
        \<lparr>TrunkTransaction = trunk_hash, BranchTransaction = entry_hash\<rparr>)
   \<and> getTransactionsToApprove example_node (reference_query ''not a hash'') =
     JSON 400 (ErrorReturn ''invalid reference hash supplied'')"
  using getTransactionsToApprove_reference_override
      [of example_node trunk_hash "[branch_hash]" "\<lparr>Reference = entry_hash\<rparr>"]
    getTransactionsToApprove_reference_override
      [of example_node trunk_hash "[branch_hash]" "\<lparr>Reference = ''not a hash''\<rparr>"]
  by (simp add: example_defs http_status_defs)

text \<open>
  C6. When the selection fails (the plugin runs and the query decodes), the errors
  \<open>ErrNodeNotSynced\<close> and \<open>ErrNoTipsAvailable\<close> are each answered with status 503 and the
  text of the error, and every other error with status 500 and the text of
  \<open>ErrInternalError\<close>, a colon and the text of the error.
\<close>

theorem getTransactionsToApprove_selection_error:
  assumes "\<not> IsSkipped_urts n" and "SelectNonLazyTips n = Inl err"
  shows "getTransactionsToApprove n (Decoded q) =
     (if err = ErrNodeNotSynced \<or> err = ErrNoTipsAvailable
      then JSON StatusServiceUnavailable (ErrorReturn (Error n err))
      else JSON StatusInternalServerError
             (ErrorReturn (Error n ErrInternalError @ '': '' @ Error n err)))"
  using assms
  by (simp add: getTransactionsToApprove_def selection_failed_def internal_error_text_def)

theorem getTransactionsToApprove_selection_error_witness:
  "\<not> IsSkipped_urts unsynced_node \<and> SelectNonLazyTips unsynced_node = Inl ErrNodeNotSynced
   \<and> getTransactionsToApprove unsynced_node (reference_query []) =
     JSON 503 (ErrorReturn ''node is not synced'')
   \<and> getTransactionsToApprove empty_pool_node (reference_query []) =
     JSON 503 (ErrorReturn ''no tips available'')
   \<and> getTransactionsToApprove failing_node (reference_query []) =
     JSON 500 (ErrorReturn ''internal error: selection timed out'')"
  using getTransactionsToApprove_selection_error
      [of unsynced_node ErrNodeNotSynced "\<lparr>Reference = []\<rparr>"]
    getTransactionsToApprove_selection_error
      [of empty_pool_node ErrNoTipsAvailable "\<lparr>Reference = []\<rparr>"]
    getTransactionsToApprove_selection_error
      [of failing_node "OtherError ''selection timed out''" "\<lparr>Reference = []\<rparr>"]
  by (simp add: example_defs unsynced_node_def empty_pool_node_def failing_node_def http_status_defs)

text \<open>
  C10. The tips are selected before the reference is checked. For every request whose
  reference is non-empty and malformed while the selection fails, the answer is that of
  the selection error, with status 503 or 500, and not the status 400 of the malformed
  reference; and when the selection fails the answer is the same for every query, so the
  reference matters only to requests whose selection succeeded.
\<close>

theorem getTransactionsToApprove_selection_before_reference:
  assumes "\<not> IsSkipped_urts n" and "SelectNonLazyTips n = Inl err"
    and "Reference q \<noteq> []" and "\<not> IsTransactionHash n (Reference q)"
  shows "getTransactionsToApprove n (Decoded q) =
       JSON (if err = ErrNodeNotSynced \<or> err = ErrNoTipsAvailable
             then StatusServiceUnavailable else StatusInternalServerError)
            (ErrorReturn (if err = ErrNodeNotSynced \<or> err = ErrNoTipsAvailable
                          then Error n err
                          else Error n ErrInternalError @ '': '' @ Error n err))
     \<and> getTransactionsToApprove n (Decoded q)
         \<noteq> JSON StatusBadRequest (ErrorReturn ''invalid reference hash supplied'')
     \<and> (\<forall>q'. getTransactionsToApprove n (Decoded q') = getTransactionsToApprove n (Decoded q))"
  using assms
  by (simp add: getTransactionsToApprove_def selection_failed_def internal_error_text_def
      http_status_defs)

theorem getTransactionsToApprove_selection_before_reference_witness:
  "\<not> IsSkipped_urts empty_pool_node
   \<and> SelectNonLazyTips empty_pool_node = Inl ErrNoTipsAvailable
   \<and> \<not> IsTransactionHash empty_pool_node ''not a hash''
   \<and> getTransactionsToApprove empty_pool_node (reference_query ''not a hash'') =
     JSON 503 (ErrorReturn ''no tips available'')
   \<and> getTransactionsToApprove failing_node (reference_query ''not a hash'') =
     JSON 500 (ErrorReturn ''internal error: selection timed out'')"
  using getTransactionsToApprove_selection_before_reference
      [of empty_pool_node ErrNoTipsAvailable "\<lparr>Reference = ''not a hash''\<rparr>"]
    getTransactionsToApprove_selection_before_reference
      [of failing_node "OtherError ''selection timed out''" "\<lparr>Reference = ''not a hash''\<rparr>"]
  by (simp add: example_defs empty_pool_node_def failing_node_def http_status_defs)

section \<open>The tips endpoints when the plugin is disabled\<close>

text \<open>
  C9, as the spec states it, fails for the REST route: when the tip selection plugin is
  skipped, \<open>configure\<close> registers no handler for \<open>/tips\<close>, so no handler of the REST
  plugin answers \<open>GET /tips\<close>, with status 503 or any other; the handler is registered
  when the plugin is not skipped.
\<close>

theorem rest_tips_when_disabled_counterexample:
  "rest_dispatch (configure True False) GET RouteTips = NoRoute
   \<and> rest_dispatch (configure False False) GET RouteTips = Handled H_tips"
  by code_simp

text \<open>
  C9, amended. When the tip selection plugin is disabled, \<open>getTipInfo\<close> and
  \<open>getTransactionsToApprove\<close> answer with status 503 and the diagnostic "tipselection
  plugin disabled in this node", whatever the request and the rest of the node are (they
  do no other work before); and the REST plugin registers no handler for the route
  \<open>/tips\<close>, so that no handler of it answers \<open>GET /tips\<close>.
\<close>

theorem tips_endpoints_when_disabled:
  assumes "IsSkipped_urts n"
  shows "getTipInfo n i flipped =
      JSON StatusServiceUnavailable (ErrorReturn ''tipselection plugin disabled in this node'')
    \<and> getTransactionsToApprove n j =
      JSON StatusServiceUnavailable (ErrorReturn ''tipselection plugin disabled in this node'')
    \<and> rest_dispatch (configure (IsSkipped_urts n) spammer_skipped) GET RouteTips = NoRoute"
  using assms by (simp add: getTipInfo_def getTransactionsToApprove_def tips_not_routed)

theorem tips_endpoints_when_disabled_witness:
  "IsSkipped_urts disabled_node
   \<and> getTipInfo disabled_node tail_query False =
      JSON 503 (ErrorReturn ''tipselection plugin disabled in this node'')
   \<and> getTransactionsToApprove disabled_node (reference_query []) =
      JSON 503 (ErrorReturn ''tipselection plugin disabled in this node'')
   \<and> rest_dispatch (configure (IsSkipped_urts disabled_node) False) GET RouteTips = NoRoute"
  using tips_endpoints_when_disabled [of disabled_node tail_query False "reference_query []" False]
  by (simp add: example_defs disabled_node_def http_status_defs)

end
